theory Spec2Isabelle
  imports Complex_Main
begin

section \<open>Values exchanged with the service\<close>

text \<open>
  The handlers of \<^verbatim>\<open>ee.py\<close> read the parsed JSON body of a request
  (\<^verbatim>\<open>request.get_json()\<close>) and answer with \<^verbatim>\<open>jsonify(...)\<close>. A value is what the parser
  hands to Python: \<^verbatim>\<open>None\<close> for \<^verbatim>\<open>null\<close>, a boolean, an \<^verbatim>\<open>int\<close> (unbounded) for a
  number written without fraction or exponent, a \<^verbatim>\<open>float\<close> for any other number, a string,
  a list, or a dict. A dict is the association list of its items, looked up with
  \<open>map_of\<close>. The floats of the machine are the type parameter \<open>'f\<close>: the model fixes
  neither their set nor their arithmetic.
\<close>

datatype 'f json =
    JNull
  | JBool bool
  | JInt int
  | JFloat 'f
  | JStr string
  | JArr "'f json list"
  | JObj "(string \<times> 'f json) list"

text \<open>
  Exceptions that leave a handler. None of them is caught in \<^verbatim>\<open>ee.py\<close>, so a handler
  that raises produces no response of its own.
\<close>

datatype error =
    KeyError string
  | TypeError
  | AttributeError
  | ValueError
  | IntegrityError
  | StatementError

type_synonym 'a result = "error + 'a"

text \<open>\<^verbatim>\<open>data[key]\<close>: only a dict can be subscripted by a string, and the key must be there.\<close>

fun subscript :: "'f json \<Rightarrow> string \<Rightarrow> 'f json result" where
  "subscript (JObj kvs) key =
     (case map_of kvs key of None \<Rightarrow> Inl (KeyError key) | Some v \<Rightarrow> Inr v)"
| "subscript _ key = Inl TypeError"

text \<open>\<^verbatim>\<open>data.get(key, default)\<close>: only a dict has the method.\<close>

fun dict_get :: "'f json \<Rightarrow> string \<Rightarrow> 'f json \<Rightarrow> 'f json result" where
  "dict_get (JObj kvs) key dflt =
     (case map_of kvs key of None \<Rightarrow> Inr dflt | Some v \<Rightarrow> Inr v)"
| "dict_get _ key dflt = Inl AttributeError"

text \<open>A response: \<^verbatim>\<open>return jsonify(body), code\<close>.\<close>

record 'f response =
  code :: nat
  body :: "'f json"

section \<open>Floats\<close>

text \<open>
  What \<^verbatim>\<open>ee.py\<close> takes from the machine and from the store for its floats:
  \<^item> \<open>float_literal\<close>: the float a decimal literal of the source denotes
    (\<^verbatim>\<open>10.0\<close>, \<^verbatim>\<open>2.0\<close>, \<^verbatim>\<open>0.1\<close>);
  \<^item> \<open>float_add\<close>, \<open>float_sub\<close>, \<open>float_mul\<close>: Python's \<^verbatim>\<open>+\<close>, \<^verbatim>\<open>-\<close> and \<^verbatim>\<open>*\<close> on floats;
  \<^item> \<open>float_less\<close>, \<open>float_equal\<close>: Python's \<^verbatim>\<open><\<close> and \<^verbatim>\<open>==\<close> on floats;
  \<^item> \<open>float_column\<close>: what a \<^verbatim>\<open>db.Float\<close> column with \<^verbatim>\<open>nullable=False\<close> keeps of a
    value bound to it, or the exception of the commit.
  They are parameters of the model: every property below holds for all of them. The
  section of examples defines the double precision instance.
\<close>

record 'f floats =
  float_literal :: "rat \<Rightarrow> 'f"
  float_add :: "'f \<Rightarrow> 'f \<Rightarrow> 'f"
  float_sub :: "'f \<Rightarrow> 'f \<Rightarrow> 'f"
  float_mul :: "'f \<Rightarrow> 'f \<Rightarrow> 'f"
  float_less :: "'f \<Rightarrow> 'f \<Rightarrow> bool"
  float_equal :: "'f \<Rightarrow> 'f \<Rightarrow> bool"
  float_column :: "'f json \<Rightarrow> 'f result"

section \<open>The data model\<close>

text \<open>
  Rows of the five tables. Every class of \<^verbatim>\<open>ee.py\<close> calls its primary key \<^verbatim>\<open>id\<close>; the
  model gives each its own name (\<open>car_pk\<close> for \<^verbatim>\<open>Car.id\<close>, and so on). Locations are
  pickled values, stored as they were sent.
\<close>

record 'f Emission =
  emission_pk :: nat
  co2 :: 'f
  nox :: 'f
  car_id :: nat

record 'f Car_row =
  car_pk :: nat
  residence_location :: "'f json"
  current_location :: "'f json"

record 'f CarPricing =
  car_pricing_pk :: nat
  cp_car_id :: nat
  cp_pricing_id :: nat
  cp_price :: 'f

record Pricing =
  pricing_pk :: nat
  parking_space_id :: nat

record 'f ParkingSpace_row =
  parking_space_pk :: nat
  location :: "'f json"
  status :: bool

text \<open>
  The objects the code works with: a row together with its \<^verbatim>\<open>uselist=False\<close>
  relationship, which is \<^verbatim>\<open>None\<close> when no related row exists.
\<close>

record 'f Car = "'f Car_row" +
  emission :: "'f Emission option"

record 'f ParkingSpace = "'f ParkingSpace_row" +
  pricing :: "Pricing option"

text \<open>The database: the tables in insertion order.\<close>

record 'f store =
  emissions :: "'f Emission list"
  cars :: "'f Car_row list"
  car_pricings :: "'f CarPricing list"
  pricings :: "Pricing list"
  parking_spaces :: "'f ParkingSpace_row list"

definition empty_store :: "'f store" where
  "empty_store =
     \<lparr>emissions = [], cars = [], car_pricings = [], pricings = [], parking_spaces = []\<rparr>"

text \<open>An integer primary key: one more than the largest key of the table, 1 in an empty table.\<close>

definition next_id :: "nat list \<Rightarrow> nat" where
  "next_id ids = Suc (fold max ids 0)"

definition load_car :: "'f store \<Rightarrow> 'f Car_row \<Rightarrow> 'f Car" where
  "load_car db row =
     \<lparr>car_pk = car_pk row,
      residence_location = residence_location row,
      current_location = current_location row,
      emission = find (\<lambda>e. car_id e = car_pk row) (emissions db)\<rparr>"

definition load_space :: "'f store \<Rightarrow> 'f ParkingSpace_row \<Rightarrow> 'f ParkingSpace" where
  "load_space db row =
     \<lparr>parking_space_pk = parking_space_pk row,
      location = location row,
      status = status row,
      pricing = find (\<lambda>p. parking_space_id p = parking_space_pk row) (pricings db)\<rparr>"

text \<open>
  \<^verbatim>\<open>ParkingSpace.serialize\<close>. The class \<^verbatim>\<open>Pricing\<close> has no attribute \<^verbatim>\<open>price\<close>, so
  reading \<^verbatim>\<open>self.pricing.price\<close> raises when a Pricing row exists.
\<close>

definition serialize :: "'f ParkingSpace \<Rightarrow> 'f json result" where
  "serialize self =
     (case pricing self of
        Some p \<Rightarrow> Inl AttributeError
      | None \<Rightarrow>
          Inr (JObj
            [(''id'', JInt (int (parking_space_pk self))),
             (''location'', location self),
             (''status'', JStr (if status self then ''available'' else ''not available'')),
             (''price'', JNull)]))"

section \<open>Helper functions\<close>

text \<open>
  The geodesic distance in kilometres comes from an external library: it is a parameter of
  the model, and it may raise on values that are not coordinates.
\<close>

type_synonym 'f geodesic = "'f json \<Rightarrow> 'f json \<Rightarrow> 'f result"

definition calculate_distance :: "'f geodesic \<Rightarrow> 'f json \<Rightarrow> 'f json \<Rightarrow> 'f result" where
  "calculate_distance geodesic_km coord1 coord2 = geodesic_km coord1 coord2"

text \<open>\<^verbatim>\<open>calculate_price\<close>: \<open>Inr None\<close> is the returned \<^verbatim>\<open>None\<close> of an unavailable space.\<close>

definition calculate_price ::
  "'f floats \<Rightarrow> 'f geodesic \<Rightarrow> 'f ParkingSpace \<Rightarrow> 'f Car \<Rightarrow> 'f option result" where
  "calculate_price fl geodesic_km parking_space car =
     (let base_price = float_literal fl 10;
          price = base_price
      in
      if \<not> status parking_space then Inr None
      else
        case calculate_distance geodesic_km (current_location car) (location parking_space) of
          Inl e \<Rightarrow> Inl e
        | Inr car_to_spot_distance \<Rightarrow>
            let price = (if float_less fl car_to_spot_distance (float_literal fl 2)
                         then float_sub fl price (float_literal fl 2) else price) in
            case calculate_distance geodesic_km (residence_location car) (location parking_space) of
              Inl e \<Rightarrow> Inl e
            | Inr residence_to_spot_distance \<Rightarrow>
                let price = (if float_less fl residence_to_spot_distance (float_literal fl 2)
                             then float_sub fl price (float_literal fl 2) else price) in
                case emission car of
                  None \<Rightarrow> Inl AttributeError
                | Some em \<Rightarrow>
                    Inr (Some (float_add fl price
                      (float_mul fl (float_add fl (co2 em) (nox em))
                         (float_literal fl (1 / 10))))))"

section \<open>The store's column types\<close>

text \<open>
  What the store does with a value when a row is written. These rules are the store's, not
  \<^verbatim>\<open>ee.py\<close>'s: the handlers pass the values of the body on as they are.
  \<^item> A Boolean column takes a boolean, and a number equal to 0 or 1 (which equal
    \<^verbatim>\<open>False\<close> and \<^verbatim>\<open>True\<close>); any other value is refused when the statement is built.
  \<^item> A Float column: the parameter \<open>float_column\<close>.
  \<^item> A pickled column takes any value but \<^verbatim>\<open>None\<close>, which violates
    \<^verbatim>\<open>nullable=False\<close>.
\<close>

fun boolean_column :: "'f floats \<Rightarrow> 'f json \<Rightarrow> bool result" where
  "boolean_column fl (JBool b) = Inr b"
| "boolean_column fl (JInt i) =
     (if i = 0 then Inr False else if i = 1 then Inr True else Inl StatementError)"
| "boolean_column fl (JFloat x) =
     (if float_equal fl x (float_literal fl 0) then Inr False
      else if float_equal fl x (float_literal fl 1) then Inr True
      else Inl StatementError)"
| "boolean_column fl _ = Inl StatementError"

definition pickle_column :: "'f json \<Rightarrow> 'f json result" where
  "pickle_column v = (if v = JNull then Inl IntegrityError else Inr v)"

section \<open>Queries\<close>

text \<open>
  \<^verbatim>\<open>Car.query.get(car_id)\<close> is called with the text of the query parameter, or with
  \<^verbatim>\<open>None\<close> when the parameter is absent (then no row is loaded). Which integer key a text
  stands for, if any, is decided by the store: \<open>key_of\<close> is a parameter of the model.
\<close>

type_synonym key_reader = "string \<Rightarrow> nat option"

definition Car_query_get :: "key_reader \<Rightarrow> 'f store \<Rightarrow> string option \<Rightarrow> 'f Car option" where
  "Car_query_get key_of db ident =
     (case ident of
        None \<Rightarrow> None
      | Some text \<Rightarrow>
          (case key_of text of
             None \<Rightarrow> None
           | Some k \<Rightarrow> map_option (load_car db) (find (\<lambda>c. car_pk c = k) (cars db))))"

text \<open>\<^verbatim>\<open>ParkingSpace.query.get(space_id)\<close>, with the integer of the path.\<close>

definition ParkingSpace_query_get :: "'f store \<Rightarrow> nat \<Rightarrow> 'f ParkingSpace option" where
  "ParkingSpace_query_get db space_id =
     map_option (load_space db) (find (\<lambda>r. parking_space_pk r = space_id) (parking_spaces db))"

text \<open>\<^verbatim>\<open>ParkingSpace.query.filter_by(status=True).all()\<close>\<close>

definition ParkingSpace_filter_by_status :: "'f store \<Rightarrow> bool \<Rightarrow> 'f ParkingSpace list" where
  "ParkingSpace_filter_by_status db st =
     map (load_space db) (filter (\<lambda>r. status r = st) (parking_spaces db))"

text \<open>\<^verbatim>\<open>Car.query.all()\<close>\<close>

definition Car_query_all :: "'f store \<Rightarrow> 'f Car list" where
  "Car_query_all db = map (load_car db) (cars db)"

section \<open>Route definitions\<close>

text \<open>\<^verbatim>\<open>jsonify\<close> of a price: \<^verbatim>\<open>None\<close> is \<^verbatim>\<open>null\<close>.\<close>

definition jsonify_price :: "'f option \<Rightarrow> 'f json" where
  "jsonify_price price = (case price of None \<Rightarrow> JNull | Some p \<Rightarrow> JFloat p)"

text \<open>The loop of \<^verbatim>\<open>get_parking_spaces\<close>: one entry appended to \<open>result\<close> per space.\<close>

fun price_spaces ::
  "'f floats \<Rightarrow> 'f geodesic \<Rightarrow> 'f Car \<Rightarrow> 'f ParkingSpace list \<Rightarrow> 'f json list \<Rightarrow>
   'f json list result" where
  "price_spaces fl geodesic_km car [] result = Inr result"
| "price_spaces fl geodesic_km car (space # spaces) result =
     (case calculate_price fl geodesic_km space car of
        Inl e \<Rightarrow> Inl e
      | Inr price \<Rightarrow>
          price_spaces fl geodesic_km car spaces
            (result @
              [JObj
                [(''id'', JInt (int (parking_space_pk space))),
                 (''location'', location space),
                 (''status'', JStr ''available''),
                 (''price'', jsonify_price price)]]))"

text \<open>\<^verbatim>\<open>GET /api/v1/parking-spaces\<close>; \<open>car_id_arg\<close> is \<^verbatim>\<open>request.args.get('car_id')\<close>.\<close>

definition get_parking_spaces ::
  "'f floats \<Rightarrow> key_reader \<Rightarrow> 'f geodesic \<Rightarrow> 'f store \<Rightarrow> string option \<Rightarrow>
   'f response result" where
  "get_parking_spaces fl key_of geodesic_km db car_id_arg =
     (case Car_query_get key_of db car_id_arg of
        None \<Rightarrow> Inr \<lparr>code = 404, body = JObj [(''error'', JStr ''Car not found'')]\<rparr>
      | Some car \<Rightarrow>
          (case price_spaces fl geodesic_km car (ParkingSpace_filter_by_status db True) [] of
             Inl e \<Rightarrow> Inl e
           | Inr result \<Rightarrow> Inr \<lparr>code = 200, body = JArr result\<rparr>))"

text \<open>
  \<^verbatim>\<open>db.session.add(new_space); db.session.commit()\<close>: the values are bound (a status of
  \<^verbatim>\<open>None\<close> is left to the column default \<^verbatim>\<open>True\<close>), then the row is inserted under a new
  key. A failed commit leaves the store as it was.
\<close>

definition commit_new_space ::
  "'f floats \<Rightarrow> 'f store \<Rightarrow> 'f json \<Rightarrow> 'f json \<Rightarrow> ('f store \<times> 'f ParkingSpace_row) result" where
  "commit_new_space fl db loc st =
     (case (if st = JNull then Inr True else boolean_column fl st) of
        Inl e \<Rightarrow> Inl e
      | Inr b \<Rightarrow>
          (case pickle_column loc of
             Inl e \<Rightarrow> Inl e
           | Inr l \<Rightarrow>
               let new_space =
                     \<lparr>parking_space_pk = next_id (map parking_space_pk (parking_spaces db)),
                      location = l, status = b\<rparr>
               in Inr (db\<lparr>parking_spaces := parking_spaces db @ [new_space]\<rparr>, new_space)))"

text \<open>
  \<^verbatim>\<open>POST /api/v1/parking-spaces\<close>. A handler returns the store it leaves together with its
  response, or with the exception it raised.
\<close>

definition add_parking_space ::
  "'f floats \<Rightarrow> 'f store \<Rightarrow> 'f json \<Rightarrow> 'f store \<times> 'f response result" where
  "add_parking_space fl db data =
     (case subscript data ''location'' of
        Inl e \<Rightarrow> (db, Inl e)
      | Inr loc \<Rightarrow>
          (case dict_get data ''status'' (JBool True) of
             Inl e \<Rightarrow> (db, Inl e)
           | Inr st \<Rightarrow>
               (case commit_new_space fl db loc st of
                  Inl e \<Rightarrow> (db, Inl e)
                | Inr (db', new_space) \<Rightarrow>
                    (case serialize (load_space db' new_space) of
                       Inl e \<Rightarrow> (db', Inl e)
                     | Inr js \<Rightarrow> (db', Inr \<lparr>code = 201, body = js\<rparr>)))))"

text \<open>\<^verbatim>\<open>parking_space.status = status; db.session.commit()\<close>\<close>

definition commit_status ::
  "'f floats \<Rightarrow> 'f store \<Rightarrow> nat \<Rightarrow> 'f json \<Rightarrow> ('f store \<times> bool) result" where
  "commit_status fl db space_id st =
     (case boolean_column fl st of
        Inl e \<Rightarrow> Inl e
      | Inr b \<Rightarrow>
          Inr (db\<lparr>parking_spaces :=
                    map (\<lambda>r. if parking_space_pk r = space_id then r\<lparr>status := b\<rparr> else r)
                      (parking_spaces db)\<rparr>, b))"

text \<open>\<^verbatim>\<open>POST /api/v1/parking-spaces/<int:space_id>/status\<close>\<close>

definition update_parking_space_status ::
  "'f floats \<Rightarrow> 'f store \<Rightarrow> nat \<Rightarrow> 'f json \<Rightarrow> 'f store \<times> 'f response result" where
  "update_parking_space_status fl db space_id data =
     (case ParkingSpace_query_get db space_id of
        None \<Rightarrow> (db, Inr \<lparr>code = 404, body = JObj [(''error'', JStr ''Parking space not found'')]\<rparr>)
      | Some parking_space \<Rightarrow>
          (case dict_get data ''status'' JNull of
             Inl e \<Rightarrow> (db, Inl e)
           | Inr st \<Rightarrow>
               if st = JNull
               then (db, Inr \<lparr>code = 400, body = JObj [(''error'', JStr ''No status provided'')]\<rparr>)
               else
                 (case commit_status fl db space_id st of
                    Inl e \<Rightarrow> (db, Inl e)
                  | Inr (db', b) \<Rightarrow>
                      (case serialize (parking_space\<lparr>status := b\<rparr>) of
                         Inl e \<Rightarrow> (db', Inl e)
                       | Inr js \<Rightarrow> (db', Inr \<lparr>code = 200, body = js\<rparr>)))))"

text \<open>The list comprehension of \<^verbatim>\<open>get_cars\<close>; \<^verbatim>\<open>car.emission.co2\<close> raises without emission.\<close>

fun car_entries :: "'f Car list \<Rightarrow> 'f json list result" where
  "car_entries [] = Inr []"
| "car_entries (car # others) =
     (case emission car of
        None \<Rightarrow> Inl AttributeError
      | Some em \<Rightarrow>
          (case car_entries others of
             Inl e \<Rightarrow> Inl e
           | Inr rest \<Rightarrow>
               Inr (JObj
                     [(''id'', JInt (int (car_pk car))),
                      (''co2_emission'', JFloat (co2 em)),
                      (''nox_emission'', JFloat (nox em)),
                      (''residence_location'', residence_location car),
                      (''current_location'', current_location car)] # rest)))"

text \<open>\<^verbatim>\<open>GET /api/v1/cars\<close>\<close>

definition get_cars :: "'f store \<Rightarrow> 'f response result" where
  "get_cars db =
     (case car_entries (Car_query_all db) of
        Inl e \<Rightarrow> Inl e
      | Inr entries \<Rightarrow> Inr \<lparr>code = 200, body = JArr entries\<rparr>)"

text \<open>
  \<^verbatim>\<open>db.session.add(new_car); db.session.add(new_emission); db.session.commit()\<close>: the car
  is inserted first, then the emission with the key the car was given; its \<^verbatim>\<open>co2\<close> and
  \<^verbatim>\<open>nox\<close> are what the Float column keeps of the submitted values.
\<close>

definition commit_new_car ::
  "'f floats \<Rightarrow> 'f store \<Rightarrow> 'f json \<Rightarrow> 'f json \<Rightarrow> 'f json \<Rightarrow> 'f json \<Rightarrow>
   ('f store \<times> 'f Car_row) result" where
  "commit_new_car fl db res cur c n =
     (case pickle_column res of
        Inl e \<Rightarrow> Inl e
      | Inr r \<Rightarrow>
          (case pickle_column cur of
             Inl e \<Rightarrow> Inl e
           | Inr u \<Rightarrow>
               (case float_column fl c of
                  Inl e \<Rightarrow> Inl e
                | Inr x \<Rightarrow>
                    (case float_column fl n of
                       Inl e \<Rightarrow> Inl e
                     | Inr y \<Rightarrow>
                         let new_car =
                               \<lparr>car_pk = next_id (map car_pk (cars db)),
                                residence_location = r, current_location = u\<rparr>;
                             new_emission =
                               \<lparr>emission_pk = next_id (map emission_pk (emissions db)),
                                co2 = x, nox = y, car_id = car_pk new_car\<rparr>
                         in Inr (db\<lparr>cars := cars db @ [new_car],
                                    emissions := emissions db @ [new_emission]\<rparr>, new_car)))))"

text \<open>\<^verbatim>\<open>POST /api/v1/cars\<close>\<close>

definition add_car :: "'f floats \<Rightarrow> 'f store \<Rightarrow> 'f json \<Rightarrow> 'f store \<times> 'f response result" where
  "add_car fl db data =
     (case subscript data ''residence_location'' of
        Inl e \<Rightarrow> (db, Inl e)
      | Inr res \<Rightarrow>
     (case subscript data ''current_location'' of
        Inl e \<Rightarrow> (db, Inl e)
      | Inr cur \<Rightarrow>
     (case subscript data ''emission'' of
        Inl e \<Rightarrow> (db, Inl e)
      | Inr em1 \<Rightarrow>
     (case subscript em1 ''co2'' of
        Inl e \<Rightarrow> (db, Inl e)
      | Inr c \<Rightarrow>
     (case subscript data ''emission'' of
        Inl e \<Rightarrow> (db, Inl e)
      | Inr em2 \<Rightarrow>
     (case subscript em2 ''nox'' of
        Inl e \<Rightarrow> (db, Inl e)
      | Inr n \<Rightarrow>
     (case commit_new_car fl db res cur c n of
        Inl e \<Rightarrow> (db, Inl e)
      | Inr (db', new_car) \<Rightarrow>
          (db', Inr \<lparr>code = 201, body = JObj [(''id'', JInt (int (car_pk new_car)))]\<rparr>))))))))"

section \<open>Definitions used to state the properties\<close>

text \<open>
  The entry the listing is expected to hold for an available space: its key, its location,
  the status \<^verbatim>\<open>"available"\<close> and the price the pricing calculator returns for the space
  and the car.
\<close>

definition available_entry ::
  "'f floats \<Rightarrow> 'f geodesic \<Rightarrow> 'f store \<Rightarrow> 'f Car \<Rightarrow> 'f ParkingSpace_row \<Rightarrow> 'f json" where
  "available_entry fl geodesic_km db car r =
     JObj
       [(''id'', JInt (int (parking_space_pk r))),
        (''location'', location r),
        (''status'', JStr ''available''),
        (''price'',
           (case calculate_price fl geodesic_km (load_space db r) car of
              Inr (Some p) \<Rightarrow> JFloat p
            | _ \<Rightarrow> JNull))]"

text \<open>
  The step \<^verbatim>\<open>if distance < 2.0: price -= 2.0\<close> of the pricing calculator, in the floats of
  the machine.
\<close>

definition within_2km_discount :: "'f floats \<Rightarrow> 'f \<Rightarrow> 'f \<Rightarrow> 'f" where
  "within_2km_discount fl distance price =
     (if float_less fl distance (float_literal fl 2)
      then float_sub fl price (float_literal fl 2) else price)"

text \<open>The entry of a car in the list of cars.\<close>

definition car_entry :: "nat \<Rightarrow> 'f \<Rightarrow> 'f \<Rightarrow> 'f json \<Rightarrow> 'f json \<Rightarrow> 'f json" where
  "car_entry k c n res cur =
     JObj
       [(''id'', JInt (int k)),
        (''co2_emission'', JFloat c),
        (''nox_emission'', JFloat n),
        (''residence_location'', res),
        (''current_location'', cur)]"

text \<open>
  Consistency of the cars with their emissions: every emission belongs to a stored car, and
  every stored car has an emission.
\<close>

definition store_ok :: "'f store \<Rightarrow> bool" where
  "store_ok db \<longleftrightarrow>
     (\<forall>e \<in> set (emissions db). car_id e \<in> set (map car_pk (cars db))) \<and>
     (\<forall>c \<in> set (cars db). \<exists>e \<in> set (emissions db). car_id e = car_pk c)"

text \<open>The stores the service can be in: it starts empty and changes through its handlers.\<close>

inductive reachable :: "'f floats \<Rightarrow> 'f store \<Rightarrow> bool" for fl :: "'f floats" where
  start: "reachable fl empty_store"
| car: "reachable fl db \<Longrightarrow> reachable fl (fst (add_car fl db data))"
| space: "reachable fl db \<Longrightarrow> reachable fl (fst (add_parking_space fl db data))"
| status:
    "reachable fl db \<Longrightarrow> reachable fl (fst (update_parking_space_status fl db space_id data))"

section \<open>Double precision floats\<close>

text \<open>
  The floats of CPython and of the store are IEEE 754 double precision numbers. This
  section defines them as an instance of the parameters: a double is a rational it can
  represent, an infinity, or not a number (the two zeros are one value here). \<open>nearest\<close>
  rounds a rational to the nearest double, ties to the even significand; a result of
  magnitude \<open>2 ^ 1024\<close> or more is an infinity.
\<close>

datatype double = Finite rat | PlusInf | MinusInf | NaN

definition pow2 :: "int \<Rightarrow> rat" where
  "pow2 k = (if 0 \<le> k then 2 ^ nat k else 1 / 2 ^ nat (- k))"

function bit_length :: "int \<Rightarrow> int" where
  "bit_length n = (if n \<le> 0 then 0 else 1 + bit_length (n div 2))"
  by pat_completeness auto
termination
  by (relation "measure nat") auto

text \<open>The exponent \<open>e\<close> with \<open>2 ^ e \<le> a < 2 ^ (e + 1)\<close>, for \<open>0 < a\<close>.\<close>

definition ilog2 :: "rat \<Rightarrow> int" where
  "ilog2 a =
     (if 1 \<le> a then bit_length \<lfloor>a\<rfloor> - 1
      else let j = bit_length \<lfloor>1 / a\<rfloor> - 1
           in if a = pow2 (- j) then - j else - j - 1)"

definition round_even :: "rat \<Rightarrow> int" where
  "round_even a =
     (let f = \<lfloor>a\<rfloor>; r = a - of_int f
      in if r < 1 / 2 then f else if 1 / 2 < r then f + 1 else if even f then f else f + 1)"

text \<open>
  The significand has 53 bits and the least exponent of a unit in the last place is
  \<open>- 1074\<close>: \<open>x\<close> is rounded to a multiple \<open>m * 2 ^ q\<close>. It overflows when \<open>m * 2 ^ q\<close>
  reaches \<open>2 ^ 1024\<close>, that is when \<open>971 < q\<close>, or \<open>q = 971\<close> and \<open>2 ^ 53 \<le> m\<close>.
\<close>

definition nearest :: "rat \<Rightarrow> double" where
  "nearest x =
     (if x = 0 then Finite 0
      else
        let a = \<bar>x\<bar>;
            q = max (ilog2 a - 52) (- 1074);
            m = round_even (a / pow2 q)
        in if 971 < q \<or> (q = 971 \<and> 2 ^ 53 \<le> m)
           then (if 0 < x then PlusInf else MinusInf)
           else Finite (if 0 < x then of_int m * pow2 q else - (of_int m * pow2 q)))"

fun double_neg :: "double \<Rightarrow> double" where
  "double_neg (Finite a) = Finite (- a)"
| "double_neg PlusInf = MinusInf"
| "double_neg MinusInf = PlusInf"
| "double_neg NaN = NaN"

fun double_add :: "double \<Rightarrow> double \<Rightarrow> double" where
  "double_add (Finite a) (Finite b) = nearest (a + b)"
| "double_add NaN y = NaN"
| "double_add x NaN = NaN"
| "double_add PlusInf MinusInf = NaN"
| "double_add MinusInf PlusInf = NaN"
| "double_add PlusInf y = PlusInf"
| "double_add MinusInf y = MinusInf"
| "double_add x PlusInf = PlusInf"
| "double_add x MinusInf = MinusInf"

definition double_sub :: "double \<Rightarrow> double \<Rightarrow> double" where
  "double_sub x y = double_add x (double_neg y)"

fun double_mul :: "double \<Rightarrow> double \<Rightarrow> double" where
  "double_mul (Finite a) (Finite b) = nearest (a * b)"
| "double_mul NaN y = NaN"
| "double_mul x NaN = NaN"
| "double_mul (Finite a) y =
     (if a = 0 then NaN else if 0 < a then y else double_neg y)"
| "double_mul x (Finite b) =
     (if b = 0 then NaN else if 0 < b then x else double_neg x)"
| "double_mul PlusInf y = y"
| "double_mul MinusInf y = double_neg y"

fun double_less :: "double \<Rightarrow> double \<Rightarrow> bool" where
  "double_less (Finite a) (Finite b) = (a < b)"
| "double_less NaN y = False"
| "double_less x NaN = False"
| "double_less x MinusInf = False"
| "double_less PlusInf y = False"
| "double_less MinusInf y = True"
| "double_less x PlusInf = True"

fun double_equal :: "double \<Rightarrow> double \<Rightarrow> bool" where
  "double_equal NaN y = False"
| "double_equal x NaN = False"
| "double_equal x y = (x = y)"

text \<open>
  The Float column of a store whose \<^verbatim>\<open>REAL\<close> values are doubles, on the values used
  below: a float is kept as it is, but not a number is stored as \<^verbatim>\<open>NULL\<close> and violates
  \<^verbatim>\<open>nullable=False\<close>, as \<^verbatim>\<open>None\<close> does; an integer of 64 bits and a boolean are
  converted to the nearest double. Larger integers, text, lists and dicts are not covered
  by this instance: it refuses them, and no property below depends on that.
\<close>

fun double_column :: "double json \<Rightarrow> double result" where
  "double_column (JFloat x) = (if x = NaN then Inl IntegrityError else Inr x)"
| "double_column (JInt i) =
     (if - (2 ^ 63) \<le> i \<and> i < 2 ^ 63 then Inr (nearest (of_int i)) else Inl StatementError)"
| "double_column (JBool b) = Inr (Finite (if b then 1 else 0))"
| "double_column JNull = Inl IntegrityError"
| "double_column _ = Inl StatementError"

definition binary64 :: "double floats" where
  "binary64 =
     \<lparr>float_literal = nearest,
      float_add = double_add,
      float_sub = double_sub,
      float_mul = double_mul,
      float_less = double_less,
      float_equal = double_equal,
      float_column = double_column\<rparr>"

section \<open>Example inputs\<close>

text \<open>
  A stand-in for the distance provider (the taxicab distance of two pairs of finite floats;
  it raises on anything else), a reader of keys that knows the text \<^verbatim>\<open>1\<close>, and a store with
  one car, an available space and an unavailable one.
\<close>

definition example_geodesic :: "double geodesic" where
  "example_geodesic coord1 coord2 =
     (case (coord1, coord2) of
        (JArr [JFloat (Finite x1), JFloat (Finite y1)],
         JArr [JFloat (Finite x2), JFloat (Finite y2)]) \<Rightarrow>
          Inr (nearest (\<bar>x1 - x2\<bar> + \<bar>y1 - y2\<bar>))
      | _ \<Rightarrow> Inl ValueError)"

definition example_key_of :: key_reader where
  "example_key_of txt = (if txt = ''1'' then Some 1 else None)"

definition example_store :: "double store" where
  "example_store =
     \<lparr>emissions = [\<lparr>emission_pk = 1, co2 = Finite 3, nox = Finite 2, car_id = 1\<rparr>],
      cars = [\<lparr>car_pk = 1, residence_location = JArr [JFloat (Finite 5), JFloat (Finite 0)],
               current_location = JArr [JFloat (Finite 0), JFloat (Finite 1)]\<rparr>],
      car_pricings = [],
      pricings = [],
      parking_spaces =
        [\<lparr>parking_space_pk = 1, location = JArr [JFloat (Finite 0), JFloat (Finite 0)],
          status = True\<rparr>,
         \<lparr>parking_space_pk = 2, location = JArr [JFloat (Finite 7), JFloat (Finite 7)],
          status = False\<rparr>]\<rparr>"

definition example_space :: "double ParkingSpace" where
  "example_space =
     \<lparr>parking_space_pk = 1, location = JArr [JFloat (Finite 0), JFloat (Finite 0)],
      status = True, pricing = None\<rparr>"

definition example_car_row :: "double Car_row" where
  "example_car_row =
     \<lparr>car_pk = 1, residence_location = JArr [JFloat (Finite 5), JFloat (Finite 0)],
      current_location = JArr [JFloat (Finite 0), JFloat (Finite 1)]\<rparr>"

definition example_car :: "double Car" where
  "example_car =
     \<lparr>car_pk = 1, residence_location = JArr [JFloat (Finite 5), JFloat (Finite 0)],
      current_location = JArr [JFloat (Finite 0), JFloat (Finite 1)],
      emission = Some \<lparr>emission_pk = 1, co2 = Finite 3, nox = Finite 2, car_id = 1\<rparr>\<rparr>"

definition example_car_body :: "double json" where
  "example_car_body =
     JObj [(''residence_location'', JArr [JFloat (Finite 8), JFloat (Finite 8)]),
           (''current_location'', JArr [JFloat (Finite 9), JFloat (Finite 9)]),
           (''emission'', JObj [(''co2'', JFloat (Finite 4)), (''nox'', JInt 6)])]"

text \<open>
  A car far from the example space, with \<^verbatim>\<open>co2 = 41.0\<close> and \<^verbatim>\<open>nox = 0.0\<close>.
\<close>

definition example_far_car :: "double Car" where
  "example_far_car =
     \<lparr>car_pk = 1, residence_location = JArr [JFloat (Finite 5), JFloat (Finite 0)],
      current_location = JArr [JFloat (Finite 0), JFloat (Finite 5)],
      emission = Some \<lparr>emission_pk = 1, co2 = Finite 41, nox = Finite 0, car_id = 1\<rparr>\<rparr>"

text \<open>
  The store after a car and then a parking space whose location is the string
  \<^verbatim>\<open>"nowhere"\<close> were created in the empty store.
\<close>

definition example_nowhere_store :: "double store" where
  "example_nowhere_store =
     fst (add_parking_space binary64
            (fst (add_car binary64 empty_store example_car_body))
            (JObj [(''location'', JStr ''nowhere'')]))"

text \<open>A create-car body whose \<^verbatim>\<open>co2\<close> is the integer \<open>2 ^ 53 + 1\<close>.\<close>

definition example_big_car_body :: "double json" where
  "example_big_car_body =
     JObj [(''residence_location'', JArr [JFloat (Finite 8), JFloat (Finite 8)]),
           (''current_location'', JArr [JFloat (Finite 9), JFloat (Finite 9)]),
           (''emission'', JObj [(''co2'', JInt 9007199254740993), (''nox'', JInt 0)])]"

lemmas ex_defs = example_geodesic_def example_key_of_def example_store_def example_space_def
  example_car_def example_car_row_def example_car_body_def

section \<open>Auxiliary facts\<close>

subsection \<open>Primary keys and lookups\<close>

lemma fold_max_ge_init: "a \<le> fold max ids (a::nat)"
proof (induction ids arbitrary: a)
  case Nil
  show ?case by simp
next
  case (Cons i ids)
  have "a \<le> max i a" by simp
  also have "max i a \<le> fold max ids (max i a)" by (rule Cons.IH)
  finally show ?case by simp
qed

lemma fold_max_ge_mem: "x \<in> set ids \<Longrightarrow> x \<le> fold max ids (a::nat)"
proof (induction ids arbitrary: a)
  case Nil
  then show ?case by simp
next
  case (Cons i ids)
  show ?case
  proof (cases "x = i")
    case True
    have "i \<le> max i a" by simp
    also have "max i a \<le> fold max ids (max i a)" by (rule fold_max_ge_init)
    finally show ?thesis using True by simp
  next
    case False
    with Cons.prems have "x \<in> set ids" by simp
    then show ?thesis by (simp add: Cons.IH)
  qed
qed

lemma next_id_greater: "x \<in> set ids \<Longrightarrow> x < next_id ids"
  using fold_max_ge_mem [of x ids 0] by (simp add: next_id_def)

lemma next_id_fresh: "next_id ids \<notin> set ids"
  using next_id_greater [of "next_id ids" ids] by auto

lemma find_append_found: "find P xs = Some x \<Longrightarrow> find P (xs @ ys) = Some x"
  by (induction xs) (auto split: if_splits)

lemma find_append_none: "find P xs = None \<Longrightarrow> find P (xs @ ys) = find P ys"
  by (induction xs) (auto split: if_splits)

lemma find_by_distinct_key:
  "distinct (map key xs) \<Longrightarrow> x \<in> set xs \<Longrightarrow> find (\<lambda>y. key y = key x) xs = Some x"
proof (induction xs)
  case Nil
  then show ?case by simp
next
  case (Cons y ys)
  show ?case
  proof (cases "x = y")
    case True
    then show ?thesis by simp
  next
    case False
    with Cons.prems have mem: "x \<in> set ys" by simp
    then have "key x \<in> set (map key ys)" by simp
    with Cons.prems(1) have "key y \<noteq> key x" by auto
    moreover have "find (\<lambda>y. key y = key x) ys = Some x"
      using Cons.IH Cons.prems(1) mem by simp
    ultimately show ?thesis by simp
  qed
qed

lemma map_of_without_key: "map_of (filter (\<lambda>kv. fst kv \<noteq> key) kvs) key = None"
  by (induction kvs) auto


lemma Car_query_get_stored:
  assumes "distinct (map car_pk (cars db))" and "row \<in> set (cars db)"
    and "key_of txt = Some (car_pk row)"
  shows "Car_query_get key_of db (Some txt) = Some (load_car db row)"
  using find_by_distinct_key [of car_pk "cars db" row] assms
  by (simp add: Car_query_get_def)

subsection \<open>The loops\<close>

lemma calculate_price_status:
  "status parking_space \<Longrightarrow> calculate_price fl geodesic_km parking_space car = Inr q \<Longrightarrow>
   \<exists>p. q = Some p"
  by (auto simp: calculate_price_def Let_def split: sum.splits option.splits)

lemma price_spaces_map:
  assumes "\<forall>r \<in> set rows.
             \<exists>p. calculate_price fl geodesic_km (load_space db r) car = Inr (Some p)"
  shows "price_spaces fl geodesic_km car (map (load_space db) rows) result =
           Inr (result @ map (available_entry fl geodesic_km db car) rows)"
  using assms
proof (induction rows arbitrary: result)
  case Nil
  show ?case by simp
next
  case (Cons r rows)
  from Cons.prems obtain p where
    p: "calculate_price fl geodesic_km (load_space db r) car = Inr (Some p)"
    by auto
  have rest: "\<forall>r \<in> set rows.
      \<exists>p. calculate_price fl geodesic_km (load_space db r) car = Inr (Some p)"
    using Cons.prems by simp
  show ?case
    using p Cons.IH [OF rest]
    by (simp add: available_entry_def jsonify_price_def load_space_def)
qed

lemma car_entries_append:
  "car_entries xs = Inr a \<Longrightarrow> car_entries ys = Inr b \<Longrightarrow> car_entries (xs @ ys) = Inr (a @ b)"
  by (induction xs arbitrary: a) (auto split: option.splits sum.splits)

lemma car_entries_total:
  "\<forall>c \<in> set cs. emission c \<noteq> None \<Longrightarrow> \<exists>old. car_entries cs = Inr old"
  by (induction cs) (auto split: option.splits sum.splits)

lemma load_car_more_emissions:
  assumes "\<exists>e \<in> set (emissions db). car_id e = car_pk c"
  shows "load_car (db\<lparr>cars := cs, emissions := emissions db @ es\<rparr>) c = load_car db c"
proof -
  from assms obtain e where "find (\<lambda>e. car_id e = car_pk c) (emissions db) = Some e"
    by (cases "find (\<lambda>e. car_id e = car_pk c) (emissions db)") (auto simp: find_None_iff)
  then show ?thesis by (simp add: load_car_def find_append_found)
qed

lemma load_car_emission:
  "store_ok db \<Longrightarrow> c \<in> set (cars db) \<Longrightarrow> emission (load_car db c) \<noteq> None"
  by (auto simp: store_ok_def load_car_def find_None_iff)

lemma get_cars_total:
  assumes "store_ok db"
  shows "\<exists>old. get_cars db = Inr \<lparr>code = 200, body = JArr old\<rparr>"
proof -
  have "\<forall>c \<in> set (Car_query_all db). emission c \<noteq> None"
  proof
    fix c assume "c \<in> set (Car_query_all db)"
    then obtain r where r: "r \<in> set (cars db)" and c: "c = load_car db r"
      by (auto simp: Car_query_all_def)
    show "emission c \<noteq> None" unfolding c by (rule load_car_emission [OF assms r])
  qed
  from car_entries_total [OF this] show ?thesis by (auto simp: get_cars_def)
qed

subsection \<open>What a handler can do to the store\<close>

lemma commit_new_car_store:
  "commit_new_car fl db res cur c n = Inr (db', new_car) \<Longrightarrow>
   \<exists>r u x y. db' =
      db\<lparr>cars := cars db @ [\<lparr>car_pk = next_id (map car_pk (cars db)),
                                residence_location = r, current_location = u\<rparr>],
         emissions := emissions db @
           [\<lparr>emission_pk = next_id (map emission_pk (emissions db)),
             co2 = x, nox = y, car_id = next_id (map car_pk (cars db))\<rparr>]\<rparr>"
  by (auto simp: commit_new_car_def Let_def split: sum.splits)

lemma add_car_store:
  "fst (add_car fl db data) = db \<or>
   (\<exists>res cur c n new_car.
      commit_new_car fl db res cur c n = Inr (fst (add_car fl db data), new_car))"
  by (simp add: add_car_def split: sum.split prod.split) blast

lemma add_car_store_cases:
  "fst (add_car fl db data) = db \<or>
   (\<exists>r u x y. fst (add_car fl db data) =
      db\<lparr>cars := cars db @ [\<lparr>car_pk = next_id (map car_pk (cars db)),
                                residence_location = r, current_location = u\<rparr>],
         emissions := emissions db @
           [\<lparr>emission_pk = next_id (map emission_pk (emissions db)),
             co2 = x, nox = y, car_id = next_id (map car_pk (cars db))\<rparr>]\<rparr>)"
  using add_car_store [of fl db data] by (auto dest!: commit_new_car_store)

lemma commit_new_space_store:
  "commit_new_space fl db loc st = Inr (db', new_space) \<Longrightarrow>
   db' = db\<lparr>parking_spaces := parking_spaces db @ [new_space]\<rparr>"
  by (auto simp: commit_new_space_def Let_def split: sum.splits if_splits)

lemma add_parking_space_store:
  "fst (add_parking_space fl db data) = db \<or>
   (\<exists>loc st new_space.
      commit_new_space fl db loc st = Inr (fst (add_parking_space fl db data), new_space))"
  by (simp add: add_parking_space_def split: sum.split prod.split) blast

lemma commit_status_store:
  "commit_status fl db space_id st = Inr (db', b) \<Longrightarrow>
   \<exists>rows. db' = db\<lparr>parking_spaces := rows\<rparr>"
  by (auto simp: commit_status_def split: sum.splits)

lemma update_status_store:
  "fst (update_parking_space_status fl db space_id data) = db \<or>
   (\<exists>st b. commit_status fl db space_id st =
      Inr (fst (update_parking_space_status fl db space_id data), b))"
  by (simp add: update_parking_space_status_def split: sum.split prod.split option.split) blast

lemma store_ok_spaces: "store_ok (db\<lparr>parking_spaces := rows\<rparr>) = store_ok db"
  by (simp add: store_ok_def)

lemma store_ok_add_car:
  assumes "store_ok db"
  shows "store_ok (fst (add_car fl db data))"
  using add_car_store_cases [of fl db data] assms by (auto simp: store_ok_def)

lemma pricings_add_car: "pricings (fst (add_car fl db data)) = pricings db"
  using add_car_store_cases [of fl db data] by auto

lemma distinct_add_car:
  assumes "distinct (map car_pk (cars db))"
  shows "distinct (map car_pk (cars (fst (add_car fl db data))))"
  using add_car_store_cases [of fl db data] assms next_id_fresh [of "map car_pk (cars db)"]
  by auto

lemma store_ok_add_parking_space:
  "store_ok (fst (add_parking_space fl db data)) = store_ok db"
  using add_parking_space_store [of fl db data]
  by (auto dest!: commit_new_space_store simp: store_ok_spaces)

lemma pricings_add_parking_space:
  "pricings (fst (add_parking_space fl db data)) = pricings db"
  using add_parking_space_store [of fl db data] by (auto dest!: commit_new_space_store)

lemma cars_add_parking_space:
  "cars (fst (add_parking_space fl db data)) = cars db"
  using add_parking_space_store [of fl db data] by (auto dest!: commit_new_space_store)

lemma store_ok_update_status:
  "store_ok (fst (update_parking_space_status fl db space_id data)) = store_ok db"
  using update_status_store [of fl db space_id data]
  by (auto dest!: commit_status_store simp: store_ok_spaces)

lemma pricings_update_status:
  "pricings (fst (update_parking_space_status fl db space_id data)) = pricings db"
  using update_status_store [of fl db space_id data] by (auto dest!: commit_status_store)

lemma cars_update_status:
  "cars (fst (update_parking_space_status fl db space_id data)) = cars db"
  using update_status_store [of fl db space_id data] by (auto dest!: commit_status_store)

text \<open>
  Every store the service reaches is consistent, has no Pricing row (no handler writes
  one) and gives its cars distinct keys.
\<close>

lemma reachable_store_ok:
  "reachable fl db \<Longrightarrow> store_ok db \<and> pricings db = [] \<and> distinct (map car_pk (cars db))"
proof (induction rule: reachable.induct)
  case start
  show ?case by (simp add: store_ok_def empty_store_def)
next
  case (car db data)
  then show ?case by (simp add: store_ok_add_car pricings_add_car distinct_add_car)
next
  case (space db data)
  then show ?case
    by (simp add: store_ok_add_parking_space pricings_add_parking_space cars_add_parking_space)
next
  case (status db space_id data)
  then show ?case
    by (simp add: store_ok_update_status pricings_update_status cars_update_status)
qed

section \<open>The pricing calculator\<close>

text \<open>
  C1, as the specification states it: the price is exactly
  10 - 2 (if near) - 2 (if near) + 0.1 * (co2 + nox). The code computes in floats, and every
  operation rounds: in double precision, for a car with \<^verbatim>\<open>co2 = 41.0\<close> and \<^verbatim>\<open>nox = 0.0\<close>
  at 5 km of the space from both of its locations, \<open>calculate_price\<close> returns
  14.100000000000001 (the double \<open>1984398585810125 / 2 ^ 47\<close>), which is not 14.1.
\<close>

theorem calculate_price_exact_counterexample:
  "status example_space \<and>
   example_geodesic (current_location example_far_car) (location example_space) =
     Inr (Finite 5) \<and>
   example_geodesic (residence_location example_far_car) (location example_space) =
     Inr (Finite 5) \<and>
   calculate_price binary64 example_geodesic example_space example_far_car =
     Inr (Some (Finite (1984398585810125 / 140737488355328))) \<and>
   (1984398585810125 / 140737488355328 :: rat) \<noteq> 10 + 1 / 10 * (41 + 0)"
proof (intro conjI)
  show "status example_space" by code_simp
  show "example_geodesic (current_location example_far_car) (location example_space) =
     Inr (Finite 5)" by code_simp
  show "example_geodesic (residence_location example_far_car) (location example_space) =
     Inr (Finite 5)" by code_simp
  show "calculate_price binary64 example_geodesic example_space example_far_car =
     Inr (Some (Finite (1984398585810125 / 140737488355328)))" by code_simp
  show "(1984398585810125 / 140737488355328 :: rat) \<noteq> 10 + 1 / 10 * (41 + 0)" by simp
qed

text \<open>
  C1, amended. For a parking space whose status is true and a car with an emission record,
  when the distance provider returns the distance \<open>d1\<close> from the car's current location and
  \<open>d2\<close> from its residence location to the space, \<open>calculate_price\<close> returns the float
  computed, in this order and with the float operations of the machine, from 10.0 by
  subtracting 2.0 if \<open>d1 < 2.0\<close>, subtracting 2.0 if \<open>d2 < 2.0\<close>, and adding
  \<open>(co2 + nox) * 0.1\<close>. No floor is applied: the second example below is a negative price.
\<close>

theorem calculate_price_available:
  assumes "status parking_space"
    and "geodesic_km (current_location car) (location parking_space) = Inr d1"
    and "geodesic_km (residence_location car) (location parking_space) = Inr d2"
    and "emission car = Some em"
  shows "calculate_price fl geodesic_km parking_space car =
           Inr (Some
             (float_add fl
                (within_2km_discount fl d2 (within_2km_discount fl d1 (float_literal fl 10)))
                (float_mul fl (float_add fl (co2 em) (nox em)) (float_literal fl (1 / 10)))))"
  using assms by (simp add: calculate_price_def calculate_distance_def within_2km_discount_def)

theorem calculate_price_available_witness:
  "status example_space \<and>
   example_geodesic (current_location example_car) (location example_space) = Inr (Finite 1) \<and>
   example_geodesic (residence_location example_car) (location example_space) =
     Inr (Finite 5) \<and>
   emission example_car =
     Some \<lparr>emission_pk = 1, co2 = Finite 3, nox = Finite 2, car_id = 1\<rparr> \<and>
   calculate_price binary64 example_geodesic example_space example_car =
     Inr (Some (Finite (17 / 2))) \<and>
   calculate_price binary64 example_geodesic example_space
     (example_car\<lparr>emission :=
        Some \<lparr>emission_pk = 1, co2 = Finite (- 100), nox = Finite 0, car_id = 1\<rparr>\<rparr>) =
     Inr (Some (Finite (- 2)))"
proof -
  have st: "status example_space" by code_simp
  have d1: "example_geodesic (current_location example_car) (location example_space) =
      Inr (Finite 1)" by code_simp
  have d2: "example_geodesic (residence_location example_car) (location example_space) =
      Inr (Finite 5)" by code_simp
  have em: "emission example_car =
      Some \<lparr>emission_pk = 1, co2 = Finite 3, nox = Finite 2, car_id = 1\<rparr>" by code_simp
  have price: "float_add binary64
      (within_2km_discount binary64 (Finite 5)
         (within_2km_discount binary64 (Finite 1) (float_literal binary64 10)))
      (float_mul binary64 (float_add binary64 (Finite 3) (Finite 2))
         (float_literal binary64 (1 / 10))) = Finite (17 / 2)" by code_simp
  have negative: "calculate_price binary64 example_geodesic example_space
     (example_car\<lparr>emission :=
        Some \<lparr>emission_pk = 1, co2 = Finite (- 100), nox = Finite 0, car_id = 1\<rparr>\<rparr>) =
     Inr (Some (Finite (- 2)))" by code_simp
  from calculate_price_available
      [where fl = binary64 and geodesic_km = example_geodesic and parking_space = example_space
         and car = example_car, OF st d1 d2 em]
    st d1 d2 em negative
  show ?thesis by (simp add: price)
qed

text \<open>
  C2. For a parking space whose status is false, \<open>calculate_price\<close> returns \<^verbatim>\<open>None\<close>, the
  indicator of an unavailable space, whatever the distance provider does and whatever the
  car's emission is: neither is read.
\<close>

theorem calculate_price_unavailable:
  "\<not> status parking_space \<Longrightarrow> calculate_price fl geodesic_km parking_space car = Inr None"
  by (simp add: calculate_price_def)

theorem calculate_price_unavailable_witness:
  "\<not> status (example_space\<lparr>status := False\<rparr>) \<and>
   calculate_price binary64 (\<lambda>coord1 coord2. Inl ValueError) (example_space\<lparr>status := False\<rparr>)
     (example_car\<lparr>emission := None\<rparr>) = Inr None"
  using calculate_price_unavailable
    [of "example_space\<lparr>status := False\<rparr>" binary64 "\<lambda>coord1 coord2. Inl ValueError"
       "example_car\<lparr>emission := None\<rparr>"]
  by (simp add: ex_defs)

section \<open>Creating records\<close>

text \<open>
  C3. The specification answers a create request whose body lacks a required field with a
  response of status 400. The handlers \<open>add_parking_space\<close> and \<open>add_car\<close> do not check
  their bodies: they subscript them, and the missing key raises \<^verbatim>\<open>KeyError\<close>, which no
  handler catches. Evaluated on the empty store: a create-parking-space body without
  \<^verbatim>\<open>location\<close> and a create-car body whose emission has no \<^verbatim>\<open>nox\<close> both raise; no
  response is returned, and the store is left as it was.
\<close>

theorem create_missing_field_raises_KeyError:
  "add_parking_space binary64 empty_store (JObj [(''status'', JBool True)]) =
     (empty_store, Inl (KeyError ''location'')) \<and>
   add_car binary64 empty_store
     (JObj [(''residence_location'', JArr [JFloat (Finite 8), JFloat (Finite 8)]),
            (''current_location'', JArr [JFloat (Finite 9), JFloat (Finite 9)]),
            (''emission'', JObj [(''co2'', JFloat (Finite 4))])]) =
     (empty_store, Inl (KeyError ''nox''))"
  by (simp add: add_parking_space_def add_car_def)

text \<open>
  C8. A create-parking-space request whose body has a location and no \<^verbatim>\<open>status\<close> inserts a
  space of status true; when no Pricing row refers to the new space (none ever does in a
  reachable store), the response has status 201 and reports the status as
  \<^verbatim>\<open>"available"\<close> and the price as \<^verbatim>\<open>null\<close>.
\<close>

theorem add_parking_space_default_status:
  assumes "map_of kvs ''location'' = Some loc" and "loc \<noteq> JNull"
    and "map_of kvs ''status'' = None"
    and "\<forall>p \<in> set (pricings db).
           parking_space_id p \<noteq> next_id (map parking_space_pk (parking_spaces db))"
  shows "add_parking_space fl db (JObj kvs) =
           (db\<lparr>parking_spaces := parking_spaces db @
                  [\<lparr>parking_space_pk = next_id (map parking_space_pk (parking_spaces db)),
                    location = loc, status = True\<rparr>]\<rparr>,
            Inr \<lparr>code = 201,
                 body = JObj
                   [(''id'', JInt (int (next_id (map parking_space_pk (parking_spaces db))))),
                    (''location'', loc),
                    (''status'', JStr ''available''),
                    (''price'', JNull)]\<rparr>)"
proof -
  have "find (\<lambda>p. parking_space_id p = next_id (map parking_space_pk (parking_spaces db)))
          (pricings db) = None"
    using assms(4) by (auto simp: find_None_iff)
  then show ?thesis
    using assms(1-3)
    by (simp add: add_parking_space_def commit_new_space_def pickle_column_def
        serialize_def load_space_def Let_def)
qed

theorem add_parking_space_default_status_witness:
  "map_of [(''location'', JArr [JFloat (Finite 2), JFloat (Finite 2)])] ''location'' =
     Some (JArr [JFloat (Finite 2), JFloat (Finite 2)]) \<and>
   map_of [(''location'', JArr [JFloat (Finite 2), JFloat (Finite 2)])] ''status'' = None \<and>
   add_parking_space binary64 example_store
       (JObj [(''location'', JArr [JFloat (Finite 2), JFloat (Finite 2)])]) =
     (example_store\<lparr>parking_spaces := parking_spaces example_store @
          [\<lparr>parking_space_pk = 3, location = JArr [JFloat (Finite 2), JFloat (Finite 2)],
            status = True\<rparr>]\<rparr>,
      Inr \<lparr>code = 201,
           body = JObj [(''id'', JInt 3),
                        (''location'', JArr [JFloat (Finite 2), JFloat (Finite 2)]),
                        (''status'', JStr ''available''), (''price'', JNull)]\<rparr>)"
proof -
  have ids: "next_id (map parking_space_pk (parking_spaces example_store)) = 3"
    by (simp add: next_id_def example_store_def)
  have none: "\<forall>p \<in> set (pricings example_store).
      parking_space_id p \<noteq> next_id (map parking_space_pk (parking_spaces example_store))"
    by (simp add: example_store_def)
  from add_parking_space_default_status
    [of "[(''location'', JArr [JFloat (Finite 2), JFloat (Finite 2)])]"
        "JArr [JFloat (Finite 2), JFloat (Finite 2)]" example_store binary64, OF _ _ _ none]
  show ?thesis by (simp add: ids)
qed

text \<open>
  C7, as the specification states it: the car read back has the same \<^verbatim>\<open>co2\<close> and
  \<^verbatim>\<open>nox\<close> as the request. The Float column keeps a double: a car created in the empty
  store with the \<^verbatim>\<open>co2\<close> \<open>9007199254740993\<close> (\<open>2 ^ 53 + 1\<close>) is read back with the
  \<^verbatim>\<open>co2\<close> \<open>9007199254740992\<close>.
\<close>

theorem add_car_round_trip_counterexample:
  "snd (add_car binary64 empty_store example_big_car_body) =
     Inr \<lparr>code = 201, body = JObj [(''id'', JInt 1)]\<rparr> \<and>
   get_cars (fst (add_car binary64 empty_store example_big_car_body)) =
     Inr \<lparr>code = 200,
          body = JArr
            [car_entry 1 (Finite 9007199254740992) (Finite 0)
               (JArr [JFloat (Finite 8), JFloat (Finite 8)])
               (JArr [JFloat (Finite 9), JFloat (Finite 9)])]\<rparr> \<and>
   (9007199254740992 :: rat) \<noteq> 9007199254740993"
proof (intro conjI)
  show "snd (add_car binary64 empty_store example_big_car_body) =
     Inr \<lparr>code = 201, body = JObj [(''id'', JInt 1)]\<rparr>" by code_simp
  show "get_cars (fst (add_car binary64 empty_store example_big_car_body)) =
     Inr \<lparr>code = 200,
          body = JArr
            [car_entry 1 (Finite 9007199254740992) (Finite 0)
               (JArr [JFloat (Finite 8), JFloat (Finite 8)])
               (JArr [JFloat (Finite 9), JFloat (Finite 9)])]\<rparr>" by code_simp
  show "(9007199254740992 :: rat) \<noteq> 9007199254740993" by simp
qed

text \<open>
  C7, amended. A create-car request whose body carries both locations (not \<^verbatim>\<open>null\<close>) and
  values \<^verbatim>\<open>co2\<close> and \<^verbatim>\<open>nox\<close> that the Float column accepts and keeps as the floats \<open>x\<close>
  and \<open>y\<close> inserts, in a consistent store, exactly one car and exactly one emission that
  refers to the car's key and holds \<open>x\<close> and \<open>y\<close>; the list of cars read afterwards is the
  list read before followed by the entry of the new car, with \<open>x\<close>, \<open>y\<close> and the submitted
  locations. The values read back are the submitted ones when the column keeps them as
  they are.
\<close>

theorem add_car_round_trip:
  assumes res: "map_of kvs ''residence_location'' = Some res" "res \<noteq> JNull"
    and cur: "map_of kvs ''current_location'' = Some cur" "cur \<noteq> JNull"
    and em: "map_of kvs ''emission'' = Some (JObj ekvs)"
    and c: "map_of ekvs ''co2'' = Some c" "float_column fl c = Inr x"
    and n: "map_of ekvs ''nox'' = Some n" "float_column fl n = Inr y"
    and ok: "store_ok db"
  shows "\<exists>db' old.
           db' = db\<lparr>cars := cars db @
                     [\<lparr>car_pk = next_id (map car_pk (cars db)),
                       residence_location = res, current_location = cur\<rparr>],
                   emissions := emissions db @
                     [\<lparr>emission_pk = next_id (map emission_pk (emissions db)),
                       co2 = x, nox = y, car_id = next_id (map car_pk (cars db))\<rparr>]\<rparr> \<and>
           add_car fl db (JObj kvs) =
             (db', Inr \<lparr>code = 201,
                        body = JObj [(''id'', JInt (int (next_id (map car_pk (cars db)))))]\<rparr>) \<and>
           get_cars db = Inr \<lparr>code = 200, body = JArr old\<rparr> \<and>
           get_cars db' =
             Inr \<lparr>code = 200,
                  body = JArr (old @ [car_entry (next_id (map car_pk (cars db))) x y res cur])\<rparr>"
proof -
  define k where "k = next_id (map car_pk (cars db))"
  define new_car where
    "new_car = \<lparr>car_pk = k, residence_location = res, current_location = cur\<rparr>"
  define new_emission where
    "new_emission = \<lparr>emission_pk = next_id (map emission_pk (emissions db)),
                      co2 = x, nox = y, car_id = k\<rparr>"
  define db' where
    "db' = db\<lparr>cars := cars db @ [new_car], emissions := emissions db @ [new_emission]\<rparr>"
  have added: "add_car fl db (JObj kvs) =
      (db', Inr \<lparr>code = 201, body = JObj [(''id'', JInt (int k))]\<rparr>)"
    using res cur em c n
    by (simp add: add_car_def commit_new_car_def pickle_column_def Let_def db'_def
        new_car_def new_emission_def k_def)
  from get_cars_total [OF ok] obtain old where
    old: "get_cars db = Inr \<lparr>code = 200, body = JArr old\<rparr>"
    by blast
  then have old_entries: "car_entries (map (load_car db) (cars db)) = Inr old"
    by (auto simp: get_cars_def Car_query_all_def split: sum.splits)
  have same: "map (load_car db') (cars db) = map (load_car db) (cars db)"
  proof (rule map_cong [OF refl])
    fix r assume "r \<in> set (cars db)"
    then have "\<exists>e \<in> set (emissions db). car_id e = car_pk r"
      using ok by (simp add: store_ok_def)
    then show "load_car db' r = load_car db r"
      unfolding db'_def by (rule load_car_more_emissions)
  qed
  have fresh: "find (\<lambda>e. car_id e = k) (emissions db) = None"
  proof -
    have "\<And>e. e \<in> set (emissions db) \<Longrightarrow> car_id e \<noteq> k"
    proof -
      fix e assume "e \<in> set (emissions db)"
      then have "car_id e \<in> set (map car_pk (cars db))"
        using ok by (simp add: store_ok_def)
      then have "car_id e < k" unfolding k_def by (rule next_id_greater)
      then show "car_id e \<noteq> k" by simp
    qed
    then show ?thesis by (auto simp: find_None_iff)
  qed
  have new_loaded: "load_car db' new_car =
      \<lparr>car_pk = k, residence_location = res, current_location = cur,
       emission = Some new_emission\<rparr>"
    using fresh
    by (simp add: load_car_def db'_def new_car_def find_append_none new_emission_def)
  have "car_entries [load_car db' new_car] = Inr [car_entry k x y res cur]"
    by (simp add: new_loaded car_entry_def new_emission_def)
  from car_entries_append [OF old_entries this]
  have both: "car_entries (map (load_car db) (cars db) @ [load_car db' new_car]) =
      Inr (old @ [car_entry k x y res cur])" .
  have "cars db' = cars db @ [new_car]" by (simp add: db'_def)
  then have "Car_query_all db' = map (load_car db) (cars db) @ [load_car db' new_car]"
    by (simp add: Car_query_all_def same)
  with both have "car_entries (Car_query_all db') = Inr (old @ [car_entry k x y res cur])"
    by simp
  then have "get_cars db' = Inr \<lparr>code = 200, body = JArr (old @ [car_entry k x y res cur])\<rparr>"
    by (simp add: get_cars_def)
  with added old show ?thesis
    unfolding db'_def new_car_def new_emission_def k_def by blast
qed

theorem add_car_round_trip_witness:
  "store_ok example_store \<and>
   float_column binary64 (JFloat (Finite 4)) = Inr (Finite 4) \<and>
   float_column binary64 (JInt 6) = Inr (Finite 6) \<and>
   add_car binary64 example_store example_car_body =
     (example_store
        \<lparr>cars := cars example_store @
           [\<lparr>car_pk = 2, residence_location = JArr [JFloat (Finite 8), JFloat (Finite 8)],
             current_location = JArr [JFloat (Finite 9), JFloat (Finite 9)]\<rparr>],
         emissions := emissions example_store @
           [\<lparr>emission_pk = 2, co2 = Finite 4, nox = Finite 6, car_id = 2\<rparr>]\<rparr>,
      Inr \<lparr>code = 201, body = JObj [(''id'', JInt 2)]\<rparr>) \<and>
   get_cars (fst (add_car binary64 example_store example_car_body)) =
     Inr \<lparr>code = 200,
          body = JArr
            [car_entry 1 (Finite 3) (Finite 2)
               (JArr [JFloat (Finite 5), JFloat (Finite 0)])
               (JArr [JFloat (Finite 0), JFloat (Finite 1)]),
             car_entry 2 (Finite 4) (Finite 6)
               (JArr [JFloat (Finite 8), JFloat (Finite 8)])
               (JArr [JFloat (Finite 9), JFloat (Finite 9)])]\<rparr>"
proof -
  have ok: "store_ok example_store" by (simp add: store_ok_def example_store_def)
  have x: "float_column binary64 (JFloat (Finite 4)) = Inr (Finite 4)" by code_simp
  have y: "float_column binary64 (JInt 6) = Inr (Finite 6)" by code_simp
  have old: "get_cars example_store =
      Inr \<lparr>code = 200,
           body = JArr [car_entry 1 (Finite 3) (Finite 2)
             (JArr [JFloat (Finite 5), JFloat (Finite 0)])
             (JArr [JFloat (Finite 0), JFloat (Finite 1)])]\<rparr>"
    by (simp add: get_cars_def Car_query_all_def load_car_def car_entry_def example_store_def)
  have ids: "next_id (map car_pk (cars example_store)) = 2"
    "next_id (map emission_pk (emissions example_store)) = 2"
    by (simp_all add: next_id_def example_store_def)
  from add_car_round_trip
    [where fl = binary64 and db = example_store
       and kvs = "[(''residence_location'', JArr [JFloat (Finite 8), JFloat (Finite 8)]),
          (''current_location'', JArr [JFloat (Finite 9), JFloat (Finite 9)]),
          (''emission'', JObj [(''co2'', JFloat (Finite 4)), (''nox'', JInt 6)])]"
       and res = "JArr [JFloat (Finite 8), JFloat (Finite 8)]"
       and cur = "JArr [JFloat (Finite 9), JFloat (Finite 9)]"
       and ekvs = "[(''co2'', JFloat (Finite 4)), (''nox'', JInt 6)]"
       and c = "JFloat (Finite 4)" and n = "JInt 6" and x = "Finite 4" and y = "Finite 6"]
    ok old x y
  show ?thesis by (auto simp: ids example_car_body_def)
qed

section \<open>Listing the available parking spaces\<close>

text \<open>
  C4, as the specification states it: in every state of the store the listing returns one
  entry per available space. Locations are stored as they are sent, and the distance
  provider raises on a value that is no coordinate: in the store reached by creating a car
  and then a space whose location is the string \<^verbatim>\<open>"nowhere"\<close>, the listing for that car
  raises and returns no list.
\<close>

theorem get_parking_spaces_raises_counterexample:
  "reachable binary64 example_nowhere_store \<and>
   get_parking_spaces binary64 example_key_of example_geodesic example_nowhere_store
     (Some ''1'') = Inl ValueError"
proof
  show "reachable binary64 example_nowhere_store"
    unfolding example_nowhere_store_def
    by (intro reachable.space reachable.car reachable.start)
  show "get_parking_spaces binary64 example_key_of example_geodesic example_nowhere_store
     (Some ''1'') = Inl ValueError"
    by code_simp
qed

text \<open>
  C4, amended. For every car stored under a key of its own and named by the query
  parameter, when the pricing calculator returns for that car and every space whose status
  is true, the listing answers 200 with one entry per space whose status is true, in the
  order of the table, and with no entry for any other space; every entry has the status
  \<^verbatim>\<open>"available"\<close> and the price \<open>calculate_price\<close> returns for the space and that car, which
  is a float and not \<^verbatim>\<open>None\<close>.
\<close>

theorem get_parking_spaces_available:
  assumes stored: "row \<in> set (cars db)"
    and keys: "distinct (map car_pk (cars db))"
    and named: "key_of arg = Some (car_pk row)"
    and priced: "\<forall>r \<in> set (parking_spaces db). status r \<longrightarrow>
                   (\<exists>q. calculate_price fl geodesic_km (load_space db r) (load_car db row) =
                          Inr q)"
  shows "get_parking_spaces fl key_of geodesic_km db (Some arg) =
           Inr \<lparr>code = 200,
                body = JArr (map (available_entry fl geodesic_km db (load_car db row))
                               (filter status (parking_spaces db)))\<rparr> \<and>
         (\<forall>r \<in> set (filter status (parking_spaces db)).
            \<exists>p. calculate_price fl geodesic_km (load_space db r) (load_car db row) =
                   Inr (Some p))"
proof -
  have found: "Car_query_get key_of db (Some arg) = Some (load_car db row)"
    using keys stored named by (rule Car_query_get_stored)
  have numbers: "\<forall>r \<in> set (filter status (parking_spaces db)).
      \<exists>p. calculate_price fl geodesic_km (load_space db r) (load_car db row) = Inr (Some p)"
  proof
    fix r assume r: "r \<in> set (filter status (parking_spaces db))"
    then obtain q where
      q: "calculate_price fl geodesic_km (load_space db r) (load_car db row) = Inr q"
      using priced by auto
    have "status (load_space db r)" using r by (simp add: load_space_def)
    from calculate_price_status [OF this q] q
    show "\<exists>p. calculate_price fl geodesic_km (load_space db r) (load_car db row) =
        Inr (Some p)" by auto
  qed
  from price_spaces_map [OF numbers, of "[]"] found
  have "get_parking_spaces fl key_of geodesic_km db (Some arg) =
           Inr \<lparr>code = 200,
                body = JArr (map (available_entry fl geodesic_km db (load_car db row))
                               (filter status (parking_spaces db)))\<rparr>"
    by (simp add: get_parking_spaces_def ParkingSpace_filter_by_status_def)
  with numbers show ?thesis by blast
qed

theorem get_parking_spaces_available_witness:
  "example_car_row \<in> set (cars example_store) \<and>
   distinct (map car_pk (cars example_store)) \<and>
   example_key_of ''1'' = Some (car_pk example_car_row) \<and>
   load_car example_store example_car_row = example_car \<and>
   calculate_price binary64 example_geodesic
     (load_space example_store
        \<lparr>parking_space_pk = 1, location = JArr [JFloat (Finite 0), JFloat (Finite 0)],
         status = True\<rparr>) example_car = Inr (Some (Finite (17 / 2))) \<and>
   get_parking_spaces binary64 example_key_of example_geodesic example_store (Some ''1'') =
     Inr \<lparr>code = 200,
          body = JArr [JObj [(''id'', JInt 1),
                             (''location'', JArr [JFloat (Finite 0), JFloat (Finite 0)]),
                             (''status'', JStr ''available''),
                             (''price'', JFloat (Finite (17 / 2)))]]\<rparr>"
proof -
  have stored: "example_car_row \<in> set (cars example_store)"
    by (simp add: example_store_def example_car_row_def)
  have keys: "distinct (map car_pk (cars example_store))"
    by (simp add: example_store_def)
  have named: "example_key_of ''1'' = Some (car_pk example_car_row)"
    by (simp add: example_key_of_def example_car_row_def)
  have loaded: "load_car example_store example_car_row = example_car"
    by (simp add: load_car_def example_store_def example_car_row_def example_car_def)
  have price: "calculate_price binary64 example_geodesic
      (load_space example_store
         \<lparr>parking_space_pk = Suc 0, location = JArr [JFloat (Finite 0), JFloat (Finite 0)],
          status = True\<rparr>) example_car = Inr (Some (Finite (17 / 2)))"
    by code_simp
  have rows: "filter status (parking_spaces example_store) =
      [\<lparr>parking_space_pk = Suc 0, location = JArr [JFloat (Finite 0), JFloat (Finite 0)],
        status = True\<rparr>]"
    by (simp add: example_store_def)
  have priced: "\<forall>r \<in> set (parking_spaces example_store). status r \<longrightarrow>
      (\<exists>q. calculate_price binary64 example_geodesic (load_space example_store r)
              (load_car example_store example_car_row) = Inr q)"
  proof (intro ballI impI)
    fix r assume "r \<in> set (parking_spaces example_store)" and "status r"
    then have "r \<in> set (filter status (parking_spaces example_store))" by simp
    then have "r = \<lparr>parking_space_pk = Suc 0,
        location = JArr [JFloat (Finite 0), JFloat (Finite 0)], status = True\<rparr>"
      by (simp add: rows)
    with price loaded
    show "\<exists>q. calculate_price binary64 example_geodesic (load_space example_store r)
        (load_car example_store example_car_row) = Inr q" by simp
  qed
  have entry: "available_entry binary64 example_geodesic example_store example_car
      \<lparr>parking_space_pk = Suc 0, location = JArr [JFloat (Finite 0), JFloat (Finite 0)],
       status = True\<rparr> =
      JObj [(''id'', JInt 1),
            (''location'', JArr [JFloat (Finite 0), JFloat (Finite 0)]),
            (''status'', JStr ''available''),
            (''price'', JFloat (Finite (17 / 2)))]"
    unfolding available_entry_def price by simp
  from get_parking_spaces_available
      [where fl = binary64 and key_of = example_key_of and geodesic_km = example_geodesic
         and db = example_store and row = example_car_row and arg = "''1''",
       OF stored keys named priced]
  have "get_parking_spaces binary64 example_key_of example_geodesic example_store (Some ''1'') =
     Inr \<lparr>code = 200,
          body = JArr [JObj [(''id'', JInt 1),
                             (''location'', JArr [JFloat (Finite 0), JFloat (Finite 0)]),
                             (''status'', JStr ''available''),
                             (''price'', JFloat (Finite (17 / 2)))]]\<rparr>"
    unfolding rows loaded by (simp add: entry)
  with stored keys named loaded price show ?thesis by simp
qed

text \<open>
  C10. When the query parameter \<^verbatim>\<open>car_id\<close> is absent, or is a text that stands for the key
  of no stored car, the listing answers 404 with the error \<^verbatim>\<open>"Car not found"\<close>: the absent
  parameter gets the same answer, not an error of its own.
\<close>

theorem get_parking_spaces_car_not_found:
  assumes "car_id_arg = None \<or>
           (\<exists>txt. car_id_arg = Some txt \<and> (\<forall>c \<in> set (cars db). key_of txt \<noteq> Some (car_pk c)))"
  shows "get_parking_spaces fl key_of geodesic_km db car_id_arg =
           Inr \<lparr>code = 404, body = JObj [(''error'', JStr ''Car not found'')]\<rparr>"
proof -
  have "Car_query_get key_of db car_id_arg = None"
    using assms by (auto simp: Car_query_get_def find_None_iff split: option.splits)
  then show ?thesis by (simp add: get_parking_spaces_def)
qed

theorem get_parking_spaces_car_not_found_witness:
  "get_parking_spaces binary64 example_key_of example_geodesic example_store None =
     Inr \<lparr>code = 404, body = JObj [(''error'', JStr ''Car not found'')]\<rparr> \<and>
   example_key_of ''7'' = None \<and>
   get_parking_spaces binary64 example_key_of example_geodesic example_store (Some ''7'') =
     Inr \<lparr>code = 404, body = JObj [(''error'', JStr ''Car not found'')]\<rparr>"
  using get_parking_spaces_car_not_found
      [of None example_store example_key_of binary64 example_geodesic]
    get_parking_spaces_car_not_found
      [of "Some ''7''" example_store example_key_of binary64 example_geodesic]
  by (simp add: example_key_of_def)

section \<open>Updating the status of a parking space\<close>

text \<open>
  C5. A status update for a stored space, with a JSON object without \<^verbatim>\<open>status\<close> as body,
  answers 400 with the error \<^verbatim>\<open>"No status provided"\<close> and leaves the store, and so the
  stored status of the space, as it was.
\<close>

theorem update_status_missing:
  assumes "ParkingSpace_query_get db space_id = Some parking_space"
    and "map_of kvs ''status'' = None"
  shows "update_parking_space_status fl db space_id (JObj kvs) =
           (db, Inr \<lparr>code = 400, body = JObj [(''error'', JStr ''No status provided'')]\<rparr>)"
  using assms by (simp add: update_parking_space_status_def)

theorem update_status_missing_witness:
  "ParkingSpace_query_get example_store 1 = Some example_space \<and>
   map_of [(''state'', JBool False)] ''status'' = (None :: double json option) \<and>
   update_parking_space_status binary64 example_store 1 (JObj [(''state'', JBool False)]) =
     (example_store, Inr \<lparr>code = 400, body = JObj [(''error'', JStr ''No status provided'')]\<rparr>)"
proof -
  have found: "ParkingSpace_query_get example_store 1 = Some example_space"
    by (simp add: ParkingSpace_query_get_def load_space_def ex_defs)
  have missing: "map_of [(''state'', JBool False)] ''status'' = (None :: double json option)"
    by simp
  from update_status_missing [OF found missing, of binary64] found missing
  show ?thesis by simp
qed



text \<open>
  C9. The check of the status update compares the value read from the body with
  \<^verbatim>\<open>None\<close>. For a stored space, a body whose \<^verbatim>\<open>status\<close> is \<^verbatim>\<open>null\<close> is answered as the
  same body without the key is: 400, \<^verbatim>\<open>"No status provided"\<close>, store unchanged. A body whose
  \<^verbatim>\<open>status\<close> is \<^verbatim>\<open>false\<close> is accepted: the stored status of the space becomes false, and
  (the space having no Pricing row) the answer is 200 with the status
  \<^verbatim>\<open>"not available"\<close>.
\<close>

theorem update_status_null_and_false:
  assumes "ParkingSpace_query_get db space_id = Some parking_space"
  shows "(map_of kvs ''status'' = Some JNull \<longrightarrow>
            update_parking_space_status fl db space_id (JObj kvs) =
              (db, Inr \<lparr>code = 400, body = JObj [(''error'', JStr ''No status provided'')]\<rparr>) \<and>
            update_parking_space_status fl db space_id (JObj kvs) =
              update_parking_space_status fl db space_id
                (JObj (filter (\<lambda>kv. fst kv \<noteq> ''status'') kvs))) \<and>
         (map_of kvs ''status'' = Some (JBool False) \<longrightarrow>
            fst (update_parking_space_status fl db space_id (JObj kvs)) =
              db\<lparr>parking_spaces :=
                   map (\<lambda>r. if parking_space_pk r = space_id then r\<lparr>status := False\<rparr> else r)
                     (parking_spaces db)\<rparr> \<and>
            (pricing parking_space = None \<longrightarrow>
               snd (update_parking_space_status fl db space_id (JObj kvs)) =
                 Inr \<lparr>code = 200,
                      body = JObj
                        [(''id'', JInt (int (parking_space_pk parking_space))),
                         (''location'', location parking_space),
                         (''status'', JStr ''not available''),
                         (''price'', JNull)]\<rparr>))"
proof -
  have absent: "update_parking_space_status fl db space_id
      (JObj (filter (\<lambda>kv. fst kv \<noteq> ''status'') kvs)) =
      (db, Inr \<lparr>code = 400, body = JObj [(''error'', JStr ''No status provided'')]\<rparr>)"
    using assms by (simp add: update_parking_space_status_def map_of_without_key)
  have null: "map_of kvs ''status'' = Some JNull \<Longrightarrow>
      update_parking_space_status fl db space_id (JObj kvs) =
      (db, Inr \<lparr>code = 400, body = JObj [(''error'', JStr ''No status provided'')]\<rparr>)"
    using assms by (simp add: update_parking_space_status_def)
  have false: "map_of kvs ''status'' = Some (JBool False) \<Longrightarrow>
      update_parking_space_status fl db space_id (JObj kvs) =
      (db\<lparr>parking_spaces :=
           map (\<lambda>r. if parking_space_pk r = space_id then r\<lparr>status := False\<rparr> else r)
             (parking_spaces db)\<rparr>,
       case serialize (parking_space\<lparr>status := False\<rparr>) of
         Inl e \<Rightarrow> Inl e
       | Inr js \<Rightarrow> Inr \<lparr>code = 200, body = js\<rparr>)"
    using assms
    by (simp add: update_parking_space_status_def commit_status_def split: sum.split)
  show ?thesis
    using absent null false by (simp add: serialize_def)
qed

theorem update_status_null_and_false_witness:
  "ParkingSpace_query_get example_store 1 = Some example_space \<and>
   update_parking_space_status binary64 example_store 1 (JObj [(''status'', JNull)]) =
     (example_store, Inr \<lparr>code = 400, body = JObj [(''error'', JStr ''No status provided'')]\<rparr>) \<and>
   update_parking_space_status binary64 example_store 1 (JObj [(''status'', JBool False)]) =
     (example_store\<lparr>parking_spaces :=
        [\<lparr>parking_space_pk = 1, location = JArr [JFloat (Finite 0), JFloat (Finite 0)],
          status = False\<rparr>,
         \<lparr>parking_space_pk = 2, location = JArr [JFloat (Finite 7), JFloat (Finite 7)],
          status = False\<rparr>]\<rparr>,
      Inr \<lparr>code = 200,
           body = JObj [(''id'', JInt 1),
                        (''location'', JArr [JFloat (Finite 0), JFloat (Finite 0)]),
                        (''status'', JStr ''not available''), (''price'', JNull)]\<rparr>)"
proof -
  have found: "ParkingSpace_query_get example_store 1 = Some example_space"
    by (simp add: ParkingSpace_query_get_def load_space_def ex_defs)
  have rows: "map (\<lambda>r. if parking_space_pk r = Suc 0 then r\<lparr>status := False\<rparr> else r)
        (parking_spaces example_store) =
      [\<lparr>parking_space_pk = 1, location = JArr [JFloat (Finite 0), JFloat (Finite 0)],
        status = False\<rparr>,
       \<lparr>parking_space_pk = 2, location = JArr [JFloat (Finite 7), JFloat (Finite 7)],
        status = False\<rparr>]"
    by (simp add: example_store_def)
  have shape: "pricing example_space = None" "parking_space_pk example_space = 1"
    "location example_space = JArr [JFloat (Finite 0), JFloat (Finite 0)]"
    by (simp_all add: example_space_def)
  from update_status_null_and_false [OF found, of "[(''status'', JNull)]" binary64]
    update_status_null_and_false [OF found, of "[(''status'', JBool False)]" binary64]
    found
  show ?thesis by (simp add: rows shape prod_eq_iff)
qed

end
